theory Spec2Isabelle
  imports Complex_Main "HOL-Library.Multiset"
begin

section \<open>JavaScript values as the client receives them\<close>

text \<open>
  The client renders whatever the HTTP API returns. The fields of a response are JSON
  values, and the code tests them with JavaScript truthiness (\<^verbatim>\<open>x ? a : b\<close>,
  \<^verbatim>\<open>x && y\<close>, \<^verbatim>\<open>x || y\<close>, \<^verbatim>\<open>!x\<close>). A field is modelled as a primitive
  JavaScript value: \<open>JUndefined\<close> is a field that is not there, \<open>JNull\<close> a JSON null.
  A number carries its (finite) value; JSON cannot deliver NaN.
\<close>

datatype jsval =
    JUndefined
  | JNull
  | JBool bool
  | JNum rat
  | JStr string

text \<open>ToBoolean: undefined, null, false, 0 and the empty string are falsy.\<close>

fun truthy :: "jsval \<Rightarrow> bool" where
  "truthy JUndefined = False"
| "truthy JNull = False"
| "truthy (JBool b) = b"
| "truthy (JNum n) = (n \<noteq> 0)"
| "truthy (JStr s) = (s \<noteq> [])"

text \<open>\<^verbatim>\<open>a && b\<close> is \<open>a\<close> when \<open>a\<close> is falsy, else \<open>b\<close>; \<^verbatim>\<open>a || b\<close> is \<open>a\<close> when \<open>a\<close>
  is truthy, else \<open>b\<close>; \<^verbatim>\<open>!a\<close> is a boolean.\<close>

definition js_and :: "jsval \<Rightarrow> jsval \<Rightarrow> jsval" where
  "js_and a b = (if truthy a then b else a)"

definition js_or :: "jsval \<Rightarrow> jsval \<Rightarrow> jsval" where
  "js_or a b = (if truthy a then a else b)"

definition js_not :: "jsval \<Rightarrow> jsval" where
  "js_not a = JBool (\<not> truthy a)"

text \<open>
  What the program uses of the JavaScript runtime and of the date-fns library, taken as
  parameters: \<open>num_to_string\<close> is Number::toString on a finite number,
  \<open>date_ms\<close> is the time value in milliseconds of \<^verbatim>\<open>new Date(v)\<close> (\<open>None\<close> for an
  invalid date, whose time value is NaN), \<open>format_time\<close> and \<open>format_day\<close> are
  \<^verbatim>\<open>format(parseISO(v), 'hh:mm a')\<close> and \<^verbatim>\<open>format(parseISO(v), 'MMM d, yyyy')\<close>
  (\<open>None\<close> when \<^verbatim>\<open>format\<close> throws a RangeError on an invalid date).
\<close>

record runtime =
  num_to_string :: "rat \<Rightarrow> string"
  date_ms :: "jsval \<Rightarrow> int option"
  format_time :: "jsval \<Rightarrow> string option"
  format_day :: "jsval \<Rightarrow> string option"

text \<open>ToString of a primitive value, as a template literal \<^verbatim>\<open>`${v}`\<close> and a property
  key \<^verbatim>\<open>obj[v]\<close> compute it.\<close>

fun to_string :: "runtime \<Rightarrow> jsval \<Rightarrow> string" where
  "to_string rt JUndefined = ''undefined''"
| "to_string rt JNull = ''null''"
| "to_string rt (JBool b) = (if b then ''true'' else ''false'')"
| "to_string rt (JNum n) = num_to_string rt n"
| "to_string rt (JStr s) = s"

text \<open>Decimal digits of an integer, as Number::toString prints an integer below 10^21.\<close>

definition digit :: "nat \<Rightarrow> char" where
  "digit n = ''0123456789'' ! (n mod 10)"

fun show_nat :: "nat \<Rightarrow> string" where
  "show_nat n =
     (if n < 10 then [digit n] else show_nat (n div 10) @ [digit (n mod 10)])"

declare show_nat.simps [simp del]

definition show_int :: "int \<Rightarrow> string" where
  "show_int i = (if i < 0 then CHR ''-'' # show_nat (nat (- i)) else show_nat (nat i))"

text \<open>The remainder operator \<^verbatim>\<open>a % b\<close> of JavaScript on integers, for a positive divisor:
  the result has the sign of the dividend.\<close>

definition js_rem :: "int \<Rightarrow> int \<Rightarrow> int" where
  "js_rem a b = (if a < 0 then - ((- a) mod b) else a mod b)"

section \<open>The data model\<close>

text \<open>An attendance record of the API. Every field is a JSON value and may be absent.\<close>

record attendance =
  attendance_id :: jsval
  date :: jsval
  user_name :: jsval
  user_email :: jsval
  punch_in :: jsval
  punch_out :: jsval
  break_start :: jsval
  break_end :: jsval
  total_hours :: jsval
  break_duration :: jsval
  status :: jsval
  is_weekend :: jsval
  is_complete :: jsval

text \<open>
  The state \<^verbatim>\<open>todayStatus\<close> is \<^verbatim>\<open>null\<close> until the first response, then the response
  body \<^verbatim>\<open>{attendance: record | null}\<close>. \<^verbatim>\<open>todayStatus?.attendance\<close> is the record,
  if there is one; \<^verbatim>\<open>attendance?.f\<close> is undefined when there is no record.
\<close>

type_synonym today_status = "attendance option option"

definition attendance_of :: "today_status \<Rightarrow> attendance option" where
  "attendance_of ts = (case ts of None \<Rightarrow> None | Some a \<Rightarrow> a)"

definition opt_field :: "(attendance \<Rightarrow> jsval) \<Rightarrow> attendance option \<Rightarrow> jsval" where
  "opt_field f a = (case a of None \<Rightarrow> JUndefined | Some r \<Rightarrow> f r)"

text \<open>The vocabulary of the data model: a field is absent (not there, or null) or
  present; a timestamp is a non-empty string; a flag is a boolean.\<close>

definition absent :: "jsval \<Rightarrow> bool" where
  "absent v = (v = JUndefined \<or> v = JNull)"

definition present :: "jsval \<Rightarrow> bool" where
  "present v = (\<not> absent v)"

fun is_timestamp :: "jsval \<Rightarrow> bool" where
  "is_timestamp (JStr s) = (s \<noteq> [])"
| "is_timestamp _ = False"

definition timestamp_or_absent :: "jsval \<Rightarrow> bool" where
  "timestamp_or_absent v = (absent v \<or> is_timestamp v)"

fun is_flag :: "jsval \<Rightarrow> bool" where
  "is_flag (JBool b) = True"
| "is_flag _ = False"

section \<open>Employee dashboard: derived values\<close>

text \<open>\<^verbatim>\<open>const isPunchedIn = attendance?.punch_in && !attendance?.punch_out;\<close>\<close>

definition isPunchedIn :: "attendance option \<Rightarrow> jsval" where
  "isPunchedIn a = js_and (opt_field punch_in a) (js_not (opt_field punch_out a))"

text \<open>\<^verbatim>\<open>const onBreak = attendance?.break_start && !attendance?.break_end;\<close>\<close>

definition onBreak :: "attendance option \<Rightarrow> jsval" where
  "onBreak a = js_and (opt_field break_start a) (js_not (opt_field break_end a))"

text \<open>
  \<^verbatim>\<open>calculateElapsedTime\<close>: the difference of the clock and the punch-in time in
  milliseconds, cut into hours (\<^verbatim>\<open>Math.floor(diff / 3600000)\<close>) and minutes
  (\<^verbatim>\<open>Math.floor((diff % 3600000) / 60000)\<close>). An invalid punch-in date makes every
  number NaN.
\<close>

definition calculateElapsedTime :: "runtime \<Rightarrow> today_status \<Rightarrow> int \<Rightarrow> string" where
  "calculateElapsedTime rt todayStatus currentTime =
     (let p = opt_field punch_in (attendance_of todayStatus) in
      if \<not> truthy p then ''0h 0m''
      else
        (case date_ms rt p of
           None \<Rightarrow> ''NaNh NaNm''
         | Some punchIn \<Rightarrow>
             (let diff = currentTime - punchIn;
                  hours = diff div (1000 * 60 * 60);
                  minutes = js_rem diff (1000 * 60 * 60) div (1000 * 60)
              in show_int hours @ ''h '' @ show_int minutes @ ''m'')))"

text \<open>The elapsed-time value that the dashboard computes. The one call of
  \<^verbatim>\<open>calculateElapsedTime\<close> is in the elapsed-time panel of the shift card, under
  \<^verbatim>\<open>{isPunchedIn && (...)}\<close>: when \<^verbatim>\<open>isPunchedIn\<close> is falsy the function is not
  called and there is no value.\<close>

definition elapsed_panel :: "runtime \<Rightarrow> today_status \<Rightarrow> int \<Rightarrow> string option" where
  "elapsed_panel rt todayStatus currentTime =
     (if truthy (isPunchedIn (attendance_of todayStatus))
      then Some (calculateElapsedTime rt todayStatus currentTime)
      else None)"

text \<open>The hours cells: \<^verbatim>\<open>{v ? `${v}h` : '-'}\<close>; the time cells:
  \<^verbatim>\<open>{v ? format(parseISO(v), 'hh:mm a') : '-'}\<close>.\<close>

definition hours_cell :: "runtime \<Rightarrow> jsval \<Rightarrow> string" where
  "hours_cell rt v = (if truthy v then to_string rt v @ ''h'' else ''-'')"


section \<open>Status badges\<close>

text \<open>
  Both dashboards keep the badge styles in an object literal \<^verbatim>\<open>badges\<close> and read
  \<^verbatim>\<open>badges[status] || badges.active\<close>. A property read on an object literal finds the
  object's own properties and then the members every object inherits from
  \<^verbatim>\<open>Object.prototype\<close>; each of those is a function or an object, hence truthy.
\<close>

definition object_prototype_keys :: "string list" where
  "object_prototype_keys =
     [''constructor'', ''hasOwnProperty'', ''isPrototypeOf'', ''propertyIsEnumerable'',
      ''toLocaleString'', ''toString'', ''valueOf'', ''__proto__'',
      ''__defineGetter__'', ''__defineSetter__'', ''__lookupGetter__'', ''__lookupSetter__'']"

datatype 'a member =
    Own 'a
  | Inherited string
  | NoMember

definition obj_get :: "(string \<times> 'a) list \<Rightarrow> string \<Rightarrow> 'a member" where
  "obj_get props k =
     (case map_of props k of
        Some v \<Rightarrow> Own v
      | None \<Rightarrow> if k \<in> set object_prototype_keys then Inherited k else NoMember)"

text \<open>Truthiness of what a property read returns, given the truthiness of the own values.\<close>

fun member_truthy :: "('a \<Rightarrow> bool) \<Rightarrow> 'a member \<Rightarrow> bool" where
  "member_truthy t (Own v) = t v"
| "member_truthy t (Inherited k) = True"
| "member_truthy t NoMember = False"

text \<open>\<^verbatim>\<open>getStatusBadge\<close> of EmployeeDashboard.js: the values are class strings.\<close>

definition badges_employee :: "(string \<times> string) list" where
  "badges_employee =
     [(''complete'', ''bg-emerald-50 text-emerald-700 border-emerald-200''),
      (''incomplete'', ''bg-amber-50 text-amber-700 border-amber-200''),
      (''break_exceeded'', ''bg-red-50 text-red-700 border-red-200''),
      (''active'', ''bg-blue-50 text-blue-700 border-blue-200'')]"

definition getStatusBadge_employee :: "runtime \<Rightarrow> jsval \<Rightarrow> string member" where
  "getStatusBadge_employee rt st =
     (let m = obj_get badges_employee (to_string rt st)
      in if member_truthy (\<lambda>s. s \<noteq> []) m then m else obj_get badges_employee ''active'')"

text \<open>\<^verbatim>\<open>getStatusBadge\<close> of EmployerDashboard.js: the values are objects with a class
  and a label.\<close>

record badge =
  badge_class :: string
  badge_label :: string

definition badges_employer :: "(string \<times> badge) list" where
  "badges_employer =
     [(''complete'',
         \<lparr>badge_class = ''bg-emerald-50 text-emerald-700 border-emerald-200'',
          badge_label = ''Complete''\<rparr>),
      (''incomplete'',
         \<lparr>badge_class = ''bg-amber-50 text-amber-700 border-amber-200'',
          badge_label = ''Incomplete''\<rparr>),
      (''break_exceeded'',
         \<lparr>badge_class = ''bg-red-50 text-red-700 border-red-200'',
          badge_label = ''Break Exceeded''\<rparr>),
      (''active'',
         \<lparr>badge_class = ''bg-blue-50 text-blue-700 border-blue-200'',
          badge_label = ''Active''\<rparr>)]"

definition getStatusBadge_employer :: "runtime \<Rightarrow> jsval \<Rightarrow> badge member" where
  "getStatusBadge_employer rt st =
     (let m = obj_get badges_employer (to_string rt st)
      in if member_truthy (\<lambda>b. True) m then m else obj_get badges_employer ''active'')"

section \<open>Rendering a record\<close>

text \<open>What the client code can throw: a TypeError (a method call on a value that has no
  such method), the RangeError of \<^verbatim>\<open>format\<close> on an invalid date, the SyntaxError of
  \<^verbatim>\<open>JSON.parse\<close>.\<close>

datatype error = TypeError | RangeError | SyntaxError

text \<open>\<^verbatim>\<open>{v ? format(parseISO(v), 'hh:mm a') : '-'}\<close>\<close>

definition time_cell :: "runtime \<Rightarrow> jsval \<Rightarrow> error + string" where
  "time_cell rt v =
     (if truthy v
      then (case format_time rt v of None \<Rightarrow> Inl RangeError | Some s \<Rightarrow> Inr s)
      else Inr ''-'')"

text \<open>\<^verbatim>\<open>{format(parseISO(record.date), 'MMM d, yyyy')}\<close>\<close>

definition day_cell :: "runtime \<Rightarrow> jsval \<Rightarrow> error + string" where
  "day_cell rt v = (case format_day rt v of None \<Rightarrow> Inl RangeError | Some s \<Rightarrow> Inr s)"

text \<open>\<^verbatim>\<open>s.replace('_', ' ')\<close> with a string pattern replaces the first occurrence only;
  \<^verbatim>\<open>toUpperCase\<close> is modelled on ASCII letters.\<close>

fun replace_first :: "char \<Rightarrow> char \<Rightarrow> string \<Rightarrow> string" where
  "replace_first a b [] = []"
| "replace_first a b (c # cs) = (if c = a then b # cs else c # replace_first a b cs)"

definition upper_char :: "char \<Rightarrow> char" where
  "upper_char c =
     (let n = (of_char c :: nat) in if 97 \<le> n \<and> n \<le> 122 then char_of (n - 32) else c)"

definition toUpperCase :: "string \<Rightarrow> string" where
  "toUpperCase s = map upper_char s"

text \<open>\<^verbatim>\<open>status.replace('_', ' ')\<close>: only a string has the method \<^verbatim>\<open>replace\<close>; on
  undefined and null the property read throws, on a number or a boolean the call does.\<close>

definition status_replace :: "jsval \<Rightarrow> error + string" where
  "status_replace st =
     (case st of JStr s \<Rightarrow> Inr (replace_first (CHR ''_'') (CHR '' '') s) | _ \<Rightarrow> Inl TypeError)"

text \<open>Today's summary (EmployeeDashboard.js, the status card): shown when
  \<^verbatim>\<open>attendance\<close> is there, else the text "No attendance for today". The cells are
  evaluated in the order of the source.\<close>

record summary_view =
  punch_in_time :: string
  punch_out_time :: string
  total_hours_text :: string
  break_duration_text :: string
  status_class :: "string member"
  status_label :: string

definition render_summary :: "runtime \<Rightarrow> attendance \<Rightarrow> error + summary_view" where
  "render_summary rt a =
     (case time_cell rt (punch_in a) of Inl e \<Rightarrow> Inl e | Inr pin \<Rightarrow>
      case time_cell rt (punch_out a) of Inl e \<Rightarrow> Inl e | Inr pout \<Rightarrow>
      case status_replace (status a) of Inl e \<Rightarrow> Inl e | Inr st \<Rightarrow>
        Inr \<lparr>punch_in_time = pin,
             punch_out_time = pout,
             total_hours_text = hours_cell rt (total_hours a),
             break_duration_text = hours_cell rt (break_duration a),
             status_class = getStatusBadge_employee rt (status a),
             status_label = toUpperCase st\<rparr>)"

definition render_today :: "runtime \<Rightarrow> today_status \<Rightarrow> error + summary_view option" where
  "render_today rt todayStatus =
     (case attendance_of todayStatus of
        None \<Rightarrow> Inr None
      | Some a \<Rightarrow> (case render_summary rt a of Inl e \<Rightarrow> Inl e | Inr v \<Rightarrow> Inr (Some v)))"

text \<open>A row of the history table (EmployeeDashboard.js).\<close>

record history_row =
  h_date :: string
  h_punch_in :: string
  h_punch_out :: string
  h_hours :: string
  h_break :: string
  h_status_class :: "string member"
  h_status_label :: string

definition render_history_row :: "runtime \<Rightarrow> attendance \<Rightarrow> error + history_row" where
  "render_history_row rt r =
     (case day_cell rt (date r) of Inl e \<Rightarrow> Inl e | Inr d \<Rightarrow>
      case time_cell rt (punch_in r) of Inl e \<Rightarrow> Inl e | Inr pin \<Rightarrow>
      case time_cell rt (punch_out r) of Inl e \<Rightarrow> Inl e | Inr pout \<Rightarrow>
      case status_replace (status r) of Inl e \<Rightarrow> Inl e | Inr st \<Rightarrow>
        Inr \<lparr>h_date = d,
             h_punch_in = pin,
             h_punch_out = pout,
             h_hours = hours_cell rt (total_hours r),
             h_break = hours_cell rt (break_duration r),
             h_status_class = getStatusBadge_employee rt (status r),
             h_status_label = st\<rparr>)"

text \<open>A row of the monthly report (EmployerDashboard.js). The status cell is the
  weekend badge or the badge of the status; \<^verbatim>\<open>.class\<close> and \<^verbatim>\<open>.label\<close> of an inherited
  member are undefined.\<close>

datatype status_cell =
    Weekend
  | Badge "string option" "string option"

record report_row =
  row_class :: string
  m_date :: string
  m_user_name :: jsval
  m_user_email :: jsval
  m_punch_in :: string
  m_punch_out :: string
  m_hours_class :: string
  m_hours :: string
  m_break_class :: string
  m_break :: string
  m_status :: status_cell

definition isIncomplete :: "attendance \<Rightarrow> jsval" where
  "isIncomplete r =
     js_and (js_and (js_not (is_complete r)) (js_not (is_weekend r))) (punch_in r)"

definition isBreakExceeded :: "attendance \<Rightarrow> bool" where
  "isBreakExceeded r = (status r = JStr ''break_exceeded'')"

fun member_field :: "('a \<Rightarrow> 'b) \<Rightarrow> 'a member \<Rightarrow> 'b option" where
  "member_field f (Own v) = Some (f v)"
| "member_field f _ = None"

definition render_report_row :: "runtime \<Rightarrow> attendance \<Rightarrow> error + report_row" where
  "render_report_row rt r =
     (case day_cell rt (date r) of Inl e \<Rightarrow> Inl e | Inr d \<Rightarrow>
      case time_cell rt (punch_in r) of Inl e \<Rightarrow> Inl e | Inr pin \<Rightarrow>
      case time_cell rt (punch_out r) of Inl e \<Rightarrow> Inl e | Inr pout \<Rightarrow>
        Inr \<lparr>row_class =
               (if truthy (isIncomplete r) \<or> isBreakExceeded r
                then ''bg-red-50 hover:bg-red-100'' else ''hover:bg-accent/50''),
             m_date = d,
             m_user_name = user_name r,
             m_user_email = user_email r,
             m_punch_in = pin,
             m_punch_out = pout,
             m_hours_class = (if truthy (isIncomplete r) then ''text-red-600 font-bold'' else []),
             m_hours = hours_cell rt (total_hours r),
             m_break_class = (if isBreakExceeded r then ''text-red-600 font-bold'' else []),
             m_break = hours_cell rt (break_duration r),
             m_status =
               (if truthy (is_weekend r) then Weekend
                else Badge (member_field badge_class (getStatusBadge_employer rt (status r)))
                           (member_field badge_label (getStatusBadge_employer rt (status r))))\<rparr>)"

section \<open>Employer dashboard: the counters\<close>

record stats =
  totalRecords :: nat
  completeShifts :: nat
  incompleteShifts :: nat
  breakExceeded :: nat

definition getStats :: "attendance list \<Rightarrow> stats" where
  "getStats monthlyData =
     \<lparr>totalRecords = length monthlyData,
      completeShifts = length (filter (\<lambda>r. truthy (is_complete r)) monthlyData),
      incompleteShifts = length (filter (\<lambda>r. truthy (isIncomplete r)) monthlyData),
      breakExceeded = length (filter (\<lambda>r. status r = JStr ''break_exceeded'') monthlyData)\<rparr>"

text \<open>The counters in the words of the specification: how many records of the list have
  a property.\<close>

definition count_where :: "('a \<Rightarrow> bool) \<Rightarrow> 'a list \<Rightarrow> nat" where
  "count_where P xs = (\<Sum>x\<leftarrow>xs. if P x then 1 else 0)"

section \<open>Requests, failures and notifications\<close>

datatype command = PunchIn | PunchOut | StartBreak | EndBreak

datatype request =
    GetTodayStatus
  | GetMyHistory
  | PostCommand command
  | PostMonthlyReport
  | PostAuth bool

text \<open>
  A rejected request, as the \<^verbatim>\<open>catch\<close> blocks see it: an error without a response (the
  network failed, or an exception of the \<^verbatim>\<open>try\<close> block itself), or an error response,
  whose body may be missing and else has the field \<^verbatim>\<open>detail\<close>.
  \<open>detail_of\<close> is \<^verbatim>\<open>error.response?.data?.detail\<close>.
\<close>

datatype failure = NoResponse | ErrorResponse "jsval option"

fun detail_of :: "failure \<Rightarrow> jsval" where
  "detail_of NoResponse = JUndefined"
| "detail_of (ErrorResponse None) = JUndefined"
| "detail_of (ErrorResponse (Some d)) = d"

datatype 'a outcome = Resolved 'a | Rejected failure

datatype toast = ToastSuccess string | ToastError jsval

text \<open>What a handler does, in order: it sets the flag, issues a request, sees a request
  settle (\<open>True\<close>: resolved), shows a notification.\<close>

datatype effect =
    SetActionLoading bool
  | Issue request
  | Settle request bool
  | Notify toast

text \<open>The requests among the effects.\<close>

fun is_issue :: "effect \<Rightarrow> bool" where
  "is_issue (Issue q) = True"
| "is_issue e = False"

text \<open>A message of the server: a non-empty string.\<close>

fun is_message :: "jsval \<Rightarrow> bool" where
  "is_message (JStr s) = (s \<noteq> [])"
| "is_message _ = False"

section \<open>Employee dashboard: state and handlers\<close>

record dashboard =
  todayStatus :: today_status
  history :: "attendance list"
  loading :: bool
  actionLoading :: bool
  currentTime :: int

text \<open>\<^verbatim>\<open>fetchTodayStatus\<close> and \<^verbatim>\<open>fetchHistory\<close>, from the moment the request settles:
  the state is set from the response, or a fixed message is shown. Neither rethrows.\<close>

definition fetchTodayStatus :: "today_status outcome \<Rightarrow> dashboard \<Rightarrow> dashboard \<times> effect list" where
  "fetchTodayStatus out d =
     (case out of
        Resolved body \<Rightarrow> (d\<lparr>todayStatus := body\<rparr>, [Settle GetTodayStatus True])
      | Rejected f \<Rightarrow>
          (d, [Settle GetTodayStatus False,
               Notify (ToastError (JStr (''Failed to fetch today'' @ [CHR 0x27] @ ''s status'')))]))"

definition fetchHistory :: "attendance list outcome \<Rightarrow> dashboard \<Rightarrow> dashboard \<times> effect list" where
  "fetchHistory out d =
     (case out of
        Resolved body \<Rightarrow> (d\<lparr>history := body\<rparr>, [Settle GetMyHistory True])
      | Rejected f \<Rightarrow>
          (d, [Settle GetMyHistory False,
               Notify (ToastError (JStr ''Failed to fetch history''))]))"

datatype fetched =
    TodayStatus "today_status outcome"
  | History "attendance list outcome"

fun fetch_of :: "fetched \<Rightarrow> request" where
  "fetch_of (TodayStatus out) = GetTodayStatus"
| "fetch_of (History out) = GetMyHistory"

fun fetch_settle :: "fetched \<Rightarrow> dashboard \<Rightarrow> dashboard \<times> effect list" where
  "fetch_settle (TodayStatus out) d = fetchTodayStatus out d"
| "fetch_settle (History out) d = fetchHistory out d"

text \<open>
  The four handlers \<^verbatim>\<open>handlePunchIn\<close>, \<^verbatim>\<open>handlePunchOut\<close>, \<^verbatim>\<open>handleStartBreak\<close>,
  \<^verbatim>\<open>handleEndBreak\<close> have one shape:
  \<^verbatim>\<open>setActionLoading(true); try { await post; toast.success; await refetch }
  catch { toast.error(detail || fallback) } finally { setActionLoading(false) }\<close>.
  The response of a command is \<open>None\<close> when its body is null or undefined, else
  \<^verbatim>\<open>response.data.work_hours\<close>, which only punch-out reads.
\<close>

fun failure_text :: "command \<Rightarrow> string" where
  "failure_text PunchIn = ''Failed to punch in''"
| "failure_text PunchOut = ''Failed to punch out''"
| "failure_text StartBreak = ''Failed to start break''"
| "failure_text EndBreak = ''Failed to end break''"

text \<open>The success message; \<open>None\<close> when building it throws (punch-out with no body).\<close>

fun success_text :: "runtime \<Rightarrow> command \<Rightarrow> jsval option \<Rightarrow> string option" where
  "success_text rt PunchIn body = Some ''Punched in successfully!''"
| "success_text rt PunchOut None = None"
| "success_text rt PunchOut (Some work_hours) =
     Some (''Punched out! Total: '' @ to_string rt work_hours @ ''h worked'')"
| "success_text rt StartBreak body = Some ''Break started''"
| "success_text rt EndBreak body = Some ''Break ended''"

fun refetches :: "command \<Rightarrow> request list" where
  "refetches PunchOut = [GetTodayStatus, GetMyHistory]"
| "refetches c = [GetTodayStatus]"

text \<open>Up to the first \<^verbatim>\<open>await\<close>: the flag, then the request.\<close>

definition handler_begin :: "command \<Rightarrow> dashboard \<Rightarrow> dashboard \<times> effect list" where
  "handler_begin c d =
     (d\<lparr>actionLoading := True\<rparr>, [SetActionLoading True, Issue (PostCommand c)])"

text \<open>The \<^verbatim>\<open>catch\<close> block followed by the \<^verbatim>\<open>finally\<close> block.\<close>

definition handler_catch :: "command \<Rightarrow> failure \<Rightarrow> dashboard \<Rightarrow> dashboard \<times> effect list" where
  "handler_catch c f d =
     (d\<lparr>actionLoading := False\<rparr>,
      [Notify (ToastError (js_or (detail_of f) (JStr (failure_text c)))),
       SetActionLoading False])"

text \<open>The \<^verbatim>\<open>finally\<close> block after the \<^verbatim>\<open>try\<close> block ran to its end.\<close>

definition handler_finally :: "dashboard \<Rightarrow> dashboard \<times> effect list" where
  "handler_finally d = (d\<lparr>actionLoading := False\<rparr>, [SetActionLoading False])"

text \<open>When the command's request settles. The second component is what the handler
  awaits next: the refetches, or nothing when the handler is over.\<close>

definition handler_post ::
  "runtime \<Rightarrow> command \<Rightarrow> jsval option outcome \<Rightarrow> dashboard
     \<Rightarrow> (dashboard \<times> effect list) \<times> request list" where
  "handler_post rt c out d =
     (case out of
        Rejected f \<Rightarrow>
          (let (d', es) = handler_catch c f d
           in ((d', Settle (PostCommand c) False # es), []))
      | Resolved body \<Rightarrow>
          (case success_text rt c body of
             None \<Rightarrow>
               (let (d', es) = handler_catch c NoResponse d
                in ((d', Settle (PostCommand c) True # es), []))
           | Some msg \<Rightarrow>
               ((d, [Settle (PostCommand c) True, Notify (ToastSuccess msg)]
                      @ map Issue (refetches c)),
                refetches c)))"

text \<open>The buttons of the shift card. Nothing but a spinner is rendered while
  \<^verbatim>\<open>loading\<close>; each of the four buttons carries \<^verbatim>\<open>disabled={actionLoading}\<close>.\<close>

fun button_rendered :: "dashboard \<Rightarrow> command \<Rightarrow> bool" where
  "button_rendered d PunchIn =
     (\<not> loading d \<and> \<not> truthy (isPunchedIn (attendance_of (todayStatus d)))
        \<and> \<not> truthy (opt_field punch_out (attendance_of (todayStatus d))))"
| "button_rendered d PunchOut =
     (\<not> loading d
        \<and> \<not> (\<not> truthy (isPunchedIn (attendance_of (todayStatus d)))
              \<and> \<not> truthy (opt_field punch_out (attendance_of (todayStatus d))))
        \<and> truthy (isPunchedIn (attendance_of (todayStatus d))))"
| "button_rendered d StartBreak =
     (\<not> loading d \<and> truthy (isPunchedIn (attendance_of (todayStatus d)))
        \<and> \<not> truthy (onBreak (attendance_of (todayStatus d))))"
| "button_rendered d EndBreak =
     (\<not> loading d \<and> truthy (isPunchedIn (attendance_of (todayStatus d)))
        \<and> truthy (onBreak (attendance_of (todayStatus d))))"

definition button_disabled :: "dashboard \<Rightarrow> command \<Rightarrow> bool" where
  "button_disabled d c = actionLoading d"

definition can_click :: "dashboard \<Rightarrow> command \<Rightarrow> bool" where
  "can_click d c = (button_rendered d c \<and> \<not> button_disabled d c)"

section \<open>Employee dashboard: the event loop\<close>

text \<open>
  The dashboard runs on a single-threaded event loop. Between two events the state is
  rendered, so a click reaches a button only if the button is rendered and not disabled
  in the current state. A handler runs up to its next \<^verbatim>\<open>await\<close> and is resumed when
  what it awaits has settled. The machine keeps the view state, the two requests of the
  initial load, the handlers under way, each with the requests it awaits, and the log of
  everything done so far. Nothing in the machine bounds the number of handlers under way.
\<close>

record machine =
  view :: dashboard
  boot :: "request list"
  running :: "(command \<times> request list) list"
  log :: "effect list"

definition initial :: "int \<Rightarrow> machine" where
  "initial now =
     \<lparr>view = \<lparr>todayStatus = None, history = [], loading = True, actionLoading = False,
              currentTime = now\<rparr>,
      boot = [GetTodayStatus, GetMyHistory],
      running = [],
      log = [Issue GetTodayStatus, Issue GetMyHistory]\<rparr>"

inductive step :: "runtime \<Rightarrow> machine \<Rightarrow> machine \<Rightarrow> bool" for rt :: runtime where
  tick:
    "step rt m (m\<lparr>view := (view m)\<lparr>currentTime := now\<rparr>\<rparr>)"
| loaded:
    "fetch_of got \<in> set (boot m) \<Longrightarrow>
     fetch_settle got (view m) = (d, es) \<Longrightarrow>
     rest = remove1 (fetch_of got) (boot m) \<Longrightarrow>
     step rt m
       (m\<lparr>view := (if rest = [] then d\<lparr>loading := False\<rparr> else d),
          boot := rest,
          log := log m @ es\<rparr>)"
| click:
    "can_click (view m) c \<Longrightarrow>
     handler_begin c (view m) = (d, es) \<Longrightarrow>
     step rt m
       (m\<lparr>view := d,
          running := running m @ [(c, [PostCommand c])],
          log := log m @ es\<rparr>)"
| posted:
    "(c, [PostCommand c]) \<in> set (running m) \<Longrightarrow>
     handler_post rt c out (view m) = ((d, es), next_awaited) \<Longrightarrow>
     step rt m
       (m\<lparr>view := d,
          running :=
            (if next_awaited = [] then remove1 (c, [PostCommand c]) (running m)
             else remove1 (c, [PostCommand c]) (running m) @ [(c, next_awaited)]),
          log := log m @ es\<rparr>)"
| refetched:
    "(c, awaited) \<in> set (running m) \<Longrightarrow>
     fetch_of got \<in> set awaited \<Longrightarrow>
     fetch_settle got (view m) = (d, es) \<Longrightarrow>
     rest = remove1 (fetch_of got) awaited \<Longrightarrow>
     rest \<noteq> [] \<Longrightarrow>
     step rt m
       (m\<lparr>view := d,
          running := remove1 (c, awaited) (running m) @ [(c, rest)],
          log := log m @ es\<rparr>)"
| finished:
    "(c, awaited) \<in> set (running m) \<Longrightarrow>
     fetch_of got \<in> set awaited \<Longrightarrow>
     fetch_settle got (view m) = (d, es) \<Longrightarrow>
     remove1 (fetch_of got) awaited = [] \<Longrightarrow>
     handler_finally d = (d', es') \<Longrightarrow>
     step rt m
       (m\<lparr>view := d',
          running := remove1 (c, awaited) (running m),
          log := log m @ es @ es'\<rparr>)"

inductive reachable :: "runtime \<Rightarrow> int \<Rightarrow> machine \<Rightarrow> bool" for rt :: runtime and now :: int where
  start: "reachable rt now (initial now)"
| after: "reachable rt now m \<Longrightarrow> step rt m m' \<Longrightarrow> reachable rt now m'"

text \<open>
  The discipline of the action-in-flight flag, as a monitor that reads the log: the flag
  is set only when it is clear, a command is issued only right after the flag was set,
  and the flag is cleared only after the command has settled.
\<close>

datatype flag_phase = Clear | Armed | InFlight | Settled

fun monitor :: "flag_phase \<Rightarrow> effect \<Rightarrow> flag_phase option" where
  "monitor p (SetActionLoading True) = (if p = Clear then Some Armed else None)"
| "monitor p (Issue (PostCommand c)) = (if p = Armed then Some InFlight else None)"
| "monitor p (Settle (PostCommand c) ok) = (if p = InFlight then Some Settled else None)"
| "monitor p (SetActionLoading False) = (if p = Settled then Some Clear else None)"
| "monitor p e = Some p"

fun replay :: "flag_phase \<Rightarrow> effect list \<Rightarrow> flag_phase option" where
  "replay p [] = Some p"
| "replay p (e # es) = (case monitor p e of None \<Rightarrow> None | Some p' \<Rightarrow> replay p' es)"

definition flag_discipline :: "effect list \<Rightarrow> bool" where
  "flag_discipline es = (replay Clear es \<noteq> None)"

text \<open>
  The invariant of the event loop: at most one handler is under way, the flag is set
  exactly while one is, a handler awaits its command or else some of the refetches, and
  the monitor has followed the log to the phase of the handler under way.
\<close>

definition phase_of :: "machine \<Rightarrow> flag_phase" where
  "phase_of m =
     (case running m of
        [] \<Rightarrow> Clear
      | (c, awaited) # hs \<Rightarrow> if awaited = [PostCommand c] then InFlight else Settled)"

definition handler_ok :: "command \<times> request list \<Rightarrow> bool" where
  "handler_ok h =
     (case h of (c, awaited) \<Rightarrow>
        awaited = [PostCommand c]
        \<or> (awaited \<noteq> [] \<and> set awaited \<subseteq> {GetTodayStatus, GetMyHistory}))"

definition inv :: "machine \<Rightarrow> bool" where
  "inv m =
     (length (running m) \<le> 1
      \<and> (actionLoading (view m) \<longleftrightarrow> running m \<noteq> [])
      \<and> list_all handler_ok (running m)
      \<and> replay Clear (log m) = Some (phase_of m))"

section \<open>Employer dashboard: the report request\<close>

record employer =
  monthlyData :: "attendance list"
  report_loading :: bool

text \<open>\<^verbatim>\<open>fetchMonthlyReport\<close>, from the moment the request settles.\<close>

definition fetchMonthlyReport :: "attendance list outcome \<Rightarrow> employer \<Rightarrow> employer \<times> effect list" where
  "fetchMonthlyReport out e =
     (case out of
        Resolved body \<Rightarrow>
          (e\<lparr>monthlyData := body, report_loading := False\<rparr>, [Settle PostMonthlyReport True])
      | Rejected f \<Rightarrow>
          (e\<lparr>report_loading := False\<rparr>,
           [Settle PostMonthlyReport False,
            Notify (ToastError (JStr ''Failed to fetch monthly report''))]))"

section \<open>Login and the persisted session\<close>

record user =
  name :: string
  email :: string
  role :: string

record auth_response =
  token :: string
  user_data :: user

text \<open>
  \<^verbatim>\<open>handleSubmit\<close> of AuthPage.js, from the moment the request settles: the effects and
  the call of \<^verbatim>\<open>onLogin\<close>, if it is reached. A response without a body makes
  \<^verbatim>\<open>response.data.token\<close> throw after the success message was shown.
\<close>

definition handleSubmit :: "bool \<Rightarrow> auth_response option outcome \<Rightarrow> effect list \<times> auth_response option" where
  "handleSubmit isLogin out =
     (case out of
        Rejected f \<Rightarrow>
          ([Settle (PostAuth isLogin) False,
            Notify (ToastError (js_or (detail_of f) (JStr ''Authentication failed'')))],
           None)
      | Resolved body \<Rightarrow>
          (case body of
             None \<Rightarrow>
               ([Settle (PostAuth isLogin) True,
                 Notify (ToastSuccess
                   (if isLogin then ''Logged in successfully!''
                    else ''Account created successfully!'')),
                 Notify (ToastError (js_or (detail_of NoResponse) (JStr ''Authentication failed'')))],
                None)
           | Some r \<Rightarrow>
               ([Settle (PostAuth isLogin) True,
                 Notify (ToastSuccess
                   (if isLogin then ''Logged in successfully!''
                    else ''Account created successfully!''))],
                Some r)))"

text \<open>
  App.js keeps the user in its state and the session in the local storage of the
  browser, a store of strings under string keys. \<^verbatim>\<open>JSON.stringify\<close> and
  \<^verbatim>\<open>JSON.parse\<close> on a user are parameters (\<open>None\<close>: \<^verbatim>\<open>JSON.parse\<close> throws).
\<close>

type_synonym storage = "string \<rightharpoonup> string"

record json =
  stringify :: "user \<Rightarrow> string"
  parse :: "string \<Rightarrow> user option"

record app =
  app_user :: "user option"
  app_loading :: bool

definition app_initial :: app where
  "app_initial = \<lparr>app_user = None, app_loading = True\<rparr>"

text \<open>\<^verbatim>\<open>localStorage.getItem(k)\<close> is the stored string, or null.\<close>

definition getItem :: "storage \<Rightarrow> string \<Rightarrow> jsval" where
  "getItem st k = (case st k of None \<Rightarrow> JNull | Some v \<Rightarrow> JStr v)"

definition handleLogin :: "json \<Rightarrow> string \<Rightarrow> user \<Rightarrow> storage \<times> app \<Rightarrow> storage \<times> app" where
  "handleLogin js tok userData sa =
     (case sa of (st, a) \<Rightarrow>
        (st(''token'' \<mapsto> tok, ''user'' \<mapsto> stringify js userData),
         a\<lparr>app_user := Some userData\<rparr>))"

definition handleLogout :: "storage \<times> app \<Rightarrow> storage \<times> app" where
  "handleLogout sa =
     (case sa of (st, a) \<Rightarrow>
        (st(''token'' := None, ''user'' := None), a\<lparr>app_user := None\<rparr>))"

text \<open>The effect that runs once when the application starts. It returns the new state
  and the requests it issued.\<close>

definition App_mount :: "json \<Rightarrow> storage \<Rightarrow> app \<Rightarrow> error + app \<times> request list" where
  "App_mount js st a =
     (let tok = getItem st ''token''; userData = getItem st ''user''
      in if truthy (js_and tok userData)
         then (case userData of
                 JStr s \<Rightarrow>
                   (case parse js s of
                      None \<Rightarrow> Inl SyntaxError
                    | Some u \<Rightarrow> Inr (a\<lparr>app_user := Some u, app_loading := False\<rparr>, []))
               | _ \<Rightarrow> Inl SyntaxError)
         else Inr (a\<lparr>app_loading := False\<rparr>, []))"

text \<open>A reload starts the application afresh on the storage as it is.\<close>

definition reload :: "json \<Rightarrow> storage \<Rightarrow> error + app \<times> request list" where
  "reload js st = App_mount js st app_initial"

datatype screen = Spinner | AuthScreen | EmployeeScreen user | EmployerScreen user

definition App_view :: "app \<Rightarrow> screen" where
  "App_view a =
     (if app_loading a then Spinner
      else (case app_user a of
              None \<Rightarrow> AuthScreen
            | Some u \<Rightarrow> if role u = ''employee'' then EmployeeScreen u else EmployerScreen u))"

section \<open>Sample data\<close>

text \<open>The record \<^verbatim>\<open>{}\<close>: every field is absent.\<close>

definition no_fields :: attendance where
  "no_fields =
     \<lparr>attendance_id = JUndefined, date = JUndefined, user_name = JUndefined,
      user_email = JUndefined, punch_in = JUndefined, punch_out = JUndefined,
      break_start = JUndefined, break_end = JUndefined, total_hours = JUndefined,
      break_duration = JUndefined, status = JUndefined, is_weekend = JUndefined,
      is_complete = JUndefined\<rparr>"

text \<open>A runtime for the examples. It agrees with JavaScript and with date-fns (in the time
  zone UTC) on the values the examples use; elsewhere it is arbitrary.\<close>

definition sample_runtime :: runtime where
  "sample_runtime =
     \<lparr>num_to_string =
        (\<lambda>r. if r = of_int \<lfloor>r\<rfloor> then show_int \<lfloor>r\<rfloor>
             else if r = 15 / 2 then ''7.5'' else []),
      date_ms =
        (\<lambda>v. if v = JStr ''1970-01-01T00:00:00.000Z'' then Some 0
             else if v = JStr ''1970-01-01T02:00:00.000Z'' then Some 7200000
             else None),
      format_time =
        (\<lambda>v. if v = JStr ''1970-01-01T00:00:00.000Z'' then Some ''12:00 AM''
             else if v = JStr ''1970-01-01T02:00:00.000Z'' then Some ''02:00 AM''
             else None),
      format_day =
        (\<lambda>v. if v = JStr ''1970-01-01'' then Some ''Jan 1, 1970'' else None)\<rparr>"

text \<open>Three records of a monthly report.\<close>

definition complete_shift :: attendance where
  "complete_shift =
     no_fields\<lparr>date := JStr ''1970-01-01'',
               punch_in := JStr ''1970-01-01T00:00:00.000Z'',
               punch_out := JStr ''1970-01-01T02:00:00.000Z'',
               total_hours := JNum 2, break_duration := JNum 0,
               status := JStr ''complete'', is_weekend := JBool False,
               is_complete := JBool True\<rparr>"

definition exceeded_shift :: attendance where
  "exceeded_shift =
     no_fields\<lparr>date := JStr ''1970-01-01'',
               punch_in := JStr ''1970-01-01T00:00:00.000Z'',
               status := JStr ''break_exceeded'', is_weekend := JBool False,
               is_complete := JBool False\<rparr>"

definition weekend_day :: attendance where
  "weekend_day =
     no_fields\<lparr>date := JStr ''1970-01-01'', status := JStr ''active'',
               is_weekend := JBool True, is_complete := JBool False\<rparr>"

text \<open>The dashboard after the initial load found no attendance for today and no
  history, and the user clicked Punch In: the request is under way.\<close>

definition punching_in :: machine where
  "punching_in =
     \<lparr>view = \<lparr>todayStatus = Some None, history = [], loading = False, actionLoading = True,
              currentTime = 0\<rparr>,
      boot = [],
      running = [(PunchIn, [PostCommand PunchIn])],
      log = [Issue GetTodayStatus, Issue GetMyHistory, Settle GetTodayStatus True,
             Settle GetMyHistory True, SetActionLoading True, Issue (PostCommand PunchIn)]\<rparr>"

text \<open>A user, and \<^verbatim>\<open>JSON.stringify\<close> and \<^verbatim>\<open>JSON.parse\<close> for the examples: they agree with
  JSON on users whose fields need no escaping, and on the one string parsed.\<close>

definition sample_user :: user where
  "sample_user = \<lparr>name = ''Ada'', email = ''ada@example.com'', role = ''employee''\<rparr>"

definition quoted :: "string \<Rightarrow> string" where
  "quoted s = [CHR 0x22] @ s @ [CHR 0x22]"

definition sample_json :: json where
  "sample_json =
     \<lparr>stringify =
        (\<lambda>u. ''{'' @ quoted ''name'' @ '':'' @ quoted (name u) @ '',''
                @ quoted ''email'' @ '':'' @ quoted (email u) @ '',''
                @ quoted ''role'' @ '':'' @ quoted (role u) @ ''}''),
      parse =
        (\<lambda>s. if s = ''{'' @ quoted ''name'' @ '':'' @ quoted ''Ada'' @ '',''
                        @ quoted ''email'' @ '':'' @ quoted ''ada@example.com'' @ '',''
                        @ quoted ''role'' @ '':'' @ quoted ''employee'' @ ''}''
             then Some sample_user else None)\<rparr>"

section \<open>Derived values of the employee dashboard\<close>

text \<open>
  C1. For a record whose punch_in and punch_out are each a timestamp or absent,
  \<^verbatim>\<open>isPunchedIn\<close> is true (truthy, and then the boolean \<^verbatim>\<open>true\<close>) exactly when
  punch_in is present and punch_out is absent; and for a record with punch_in present
  and punch_out absent, setting punch_out to a timestamp makes it false.
\<close>

theorem isPunchedIn_iff:
  assumes "timestamp_or_absent (punch_in r)" and "timestamp_or_absent (punch_out r)"
  shows "(truthy (isPunchedIn (Some r)) \<longleftrightarrow> present (punch_in r) \<and> absent (punch_out r))
       \<and> (isPunchedIn (Some r) = JBool True \<longleftrightarrow> present (punch_in r) \<and> absent (punch_out r))
       \<and> (present (punch_in r) \<and> absent (punch_out r) \<longrightarrow>
            (\<forall>t. is_timestamp t \<longrightarrow> \<not> truthy (isPunchedIn (Some (r\<lparr>punch_out := t\<rparr>)))))"
  using assms
  by (cases "punch_in r"; cases "punch_out r")
     (auto simp: isPunchedIn_def js_and_def js_not_def opt_field_def timestamp_or_absent_def
        absent_def present_def elim: is_timestamp.elims)

theorem isPunchedIn_iff_witness:
  "timestamp_or_absent (punch_in (no_fields\<lparr>punch_in := JStr ''1970-01-01T00:00:00.000Z''\<rparr>))
   \<and> timestamp_or_absent (punch_out (no_fields\<lparr>punch_in := JStr ''1970-01-01T00:00:00.000Z''\<rparr>))
   \<and> isPunchedIn (Some (no_fields\<lparr>punch_in := JStr ''1970-01-01T00:00:00.000Z''\<rparr>)) = JBool True
   \<and> \<not> truthy (isPunchedIn (Some (no_fields\<lparr>punch_in := JStr ''1970-01-01T00:00:00.000Z'',
                                           punch_out := JStr ''1970-01-01T02:00:00.000Z''\<rparr>)))"
  using isPunchedIn_iff [of "no_fields\<lparr>punch_in := JStr ''1970-01-01T00:00:00.000Z''\<rparr>"]
  by (simp add: no_fields_def timestamp_or_absent_def absent_def present_def)

text \<open>Hours and minutes of a non-negative number of milliseconds.\<close>

lemma split_ms:
  fixes d :: int
  assumes "0 \<le> d"
  shows "d div 3600000 = d div 60000 div 60"
    and "js_rem d 3600000 div 60000 = d div 60000 mod 60"
proof -
  show "d div 3600000 = d div 60000 div 60"
    using zdiv_zmult2_eq [of 60 d 60000] by simp
  have "d mod 3600000 = 60000 * (d div 60000 mod 60) + d mod 60000"
    using zmod_zmult2_eq [of 60 d 60000] by simp
  then have "d mod 3600000 div 60000 = d div 60000 mod 60"
    by simp
  with assms show "js_rem d 3600000 div 60000 = d div 60000 mod 60"
    by (simp add: js_rem_def)
qed

text \<open>
  C2. For a punch-in time \<open>T\<close> (the time value of a truthy punch_in) and a clock
  \<open>now \<ge> T\<close>, the elapsed-time display is the whole hours
  \<open>(now - T) div 60000 div 60\<close>, then \<open>h\<close>, a blank, the whole minutes
  \<open>(now - T) div 60000 mod 60\<close>, then \<open>m\<close>: floor division, no rounding, no seconds.
  For \<open>now = T + 125\<close> minutes the display is \<open>2h 5m\<close>.
\<close>

theorem calculateElapsedTime_floor:
  assumes "attendance_of ts = Some r" and "truthy (punch_in r)"
    and "date_ms rt (punch_in r) = Some T" and "T \<le> now"
  shows "calculateElapsedTime rt ts now =
           show_int ((now - T) div 60000 div 60) @ ''h ''
             @ show_int ((now - T) div 60000 mod 60) @ ''m''
       \<and> calculateElapsedTime rt ts (T + 125 * 60000) = ''2h 5m''"
proof -
  have gen: "calculateElapsedTime rt ts t =
      show_int ((t - T) div 60000 div 60) @ ''h '' @ show_int ((t - T) div 60000 mod 60) @ ''m''"
    if "T \<le> t" for t
  proof -
    from that have "0 \<le> t - T" by simp
    from split_ms [OF this] assms(1-3) show ?thesis
      by (simp add: calculateElapsedTime_def opt_field_def Let_def)
  qed
  have "calculateElapsedTime rt ts (T + 125 * 60000) = ''2h 5m''"
    using gen [of "T + 125 * 60000"]
    by (simp add: show_int_def show_nat.simps digit_def)
  with gen [OF assms(4)] show ?thesis by simp
qed

theorem calculateElapsedTime_floor_witness:
  "attendance_of (Some (Some (no_fields\<lparr>punch_in := JStr ''1970-01-01T02:00:00.000Z''\<rparr>)))
     = Some (no_fields\<lparr>punch_in := JStr ''1970-01-01T02:00:00.000Z''\<rparr>)
   \<and> truthy (punch_in (no_fields\<lparr>punch_in := JStr ''1970-01-01T02:00:00.000Z''\<rparr>))
   \<and> date_ms sample_runtime (punch_in (no_fields\<lparr>punch_in := JStr ''1970-01-01T02:00:00.000Z''\<rparr>))
       = Some 7200000
   \<and> (7200000 :: int) \<le> 18000999
   \<and> calculateElapsedTime sample_runtime
       (Some (Some (no_fields\<lparr>punch_in := JStr ''1970-01-01T02:00:00.000Z''\<rparr>))) 18000999 = ''3h 0m''
   \<and> calculateElapsedTime sample_runtime
       (Some (Some (no_fields\<lparr>punch_in := JStr ''1970-01-01T02:00:00.000Z''\<rparr>))) 14700000 = ''2h 5m''"
  using calculateElapsedTime_floor
    [of "Some (Some (no_fields\<lparr>punch_in := JStr ''1970-01-01T02:00:00.000Z''\<rparr>))"
      "no_fields\<lparr>punch_in := JStr ''1970-01-01T02:00:00.000Z''\<rparr>" sample_runtime 7200000 18000999]
  by (simp add: attendance_of_def no_fields_def sample_runtime_def show_int_def show_nat.simps
      digit_def)

text \<open>
  C9. The elapsed-time value is computed only while \<^verbatim>\<open>isPunchedIn\<close> is true: then it
  is what \<^verbatim>\<open>calculateElapsedTime\<close> returns. For every record in which \<^verbatim>\<open>isPunchedIn\<close>
  is false no value is computed (the value is undefined); this is so when punch_in is
  absent, where \<^verbatim>\<open>calculateElapsedTime\<close> is moreover the zero display \<open>0h 0m\<close>, and when
  punch_in and punch_out are both present.
\<close>

theorem elapsed_zero_or_hidden:
  "(\<not> truthy (isPunchedIn (attendance_of ts)) \<longrightarrow> elapsed_panel rt ts now = None)
   \<and> (truthy (isPunchedIn (attendance_of ts)) \<longrightarrow>
        elapsed_panel rt ts now = Some (calculateElapsedTime rt ts now))
   \<and> (\<not> truthy (opt_field punch_in (attendance_of ts)) \<longrightarrow>
        calculateElapsedTime rt ts now = ''0h 0m'')
   \<and> (absent (opt_field punch_in (attendance_of ts)) \<longrightarrow>
        \<not> truthy (isPunchedIn (attendance_of ts))
        \<and> elapsed_panel rt ts now = None
        \<and> calculateElapsedTime rt ts now = ''0h 0m'')
   \<and> (is_timestamp (opt_field punch_in (attendance_of ts))
        \<and> is_timestamp (opt_field punch_out (attendance_of ts)) \<longrightarrow>
        \<not> truthy (isPunchedIn (attendance_of ts)) \<and> elapsed_panel rt ts now = None)"
proof -
  have hidden: "elapsed_panel rt ts now = None" if "\<not> truthy (isPunchedIn (attendance_of ts))"
    using that by (simp add: elapsed_panel_def)
  have shown: "elapsed_panel rt ts now = Some (calculateElapsedTime rt ts now)"
    if "truthy (isPunchedIn (attendance_of ts))"
    using that by (simp add: elapsed_panel_def)
  have zero: "calculateElapsedTime rt ts now = ''0h 0m''"
    if "\<not> truthy (opt_field punch_in (attendance_of ts))"
    using that by (simp add: calculateElapsedTime_def)
  have no_in: "\<not> truthy (isPunchedIn (attendance_of ts))"
    if "\<not> truthy (opt_field punch_in (attendance_of ts))"
    using that by (simp add: isPunchedIn_def js_and_def)
  have falsy: "\<not> truthy (opt_field punch_in (attendance_of ts))"
    if "absent (opt_field punch_in (attendance_of ts))"
    using that by (auto simp: absent_def)
  have both: "\<not> truthy (isPunchedIn (attendance_of ts))"
    if "is_timestamp (opt_field punch_in (attendance_of ts))"
      and "is_timestamp (opt_field punch_out (attendance_of ts))"
    using that
    by (cases "opt_field punch_in (attendance_of ts)"; cases "opt_field punch_out (attendance_of ts)")
       (simp_all add: isPunchedIn_def js_and_def js_not_def)
  from hidden shown zero no_in falsy both show ?thesis by blast
qed

theorem elapsed_zero_or_hidden_witness:
  "absent (opt_field punch_in (attendance_of (Some (Some no_fields))))
   \<and> calculateElapsedTime sample_runtime (Some (Some no_fields)) 7500000 = ''0h 0m''
   \<and> elapsed_panel sample_runtime (Some (Some no_fields)) 7500000 = None
   \<and> is_timestamp (opt_field punch_in (attendance_of (Some (Some (no_fields
        \<lparr>punch_in := JStr ''1970-01-01T00:00:00.000Z'',
         punch_out := JStr ''1970-01-01T02:00:00.000Z''\<rparr>)))))
   \<and> is_timestamp (opt_field punch_out (attendance_of (Some (Some (no_fields
        \<lparr>punch_in := JStr ''1970-01-01T00:00:00.000Z'',
         punch_out := JStr ''1970-01-01T02:00:00.000Z''\<rparr>)))))
   \<and> \<not> truthy (isPunchedIn (attendance_of (Some (Some (no_fields
        \<lparr>punch_in := JStr ''1970-01-01T00:00:00.000Z'',
         punch_out := JStr ''1970-01-01T02:00:00.000Z''\<rparr>)))))
   \<and> elapsed_panel sample_runtime (Some (Some (no_fields
        \<lparr>punch_in := JStr ''1970-01-01T00:00:00.000Z'',
         punch_out := JStr ''1970-01-01T02:00:00.000Z''\<rparr>))) 7500000 = None
   \<and> truthy (isPunchedIn (attendance_of (Some (Some (no_fields
        \<lparr>punch_in := JStr ''1970-01-01T00:00:00.000Z''\<rparr>)))))
   \<and> elapsed_panel sample_runtime (Some (Some (no_fields
        \<lparr>punch_in := JStr ''1970-01-01T00:00:00.000Z''\<rparr>))) 7500000 = Some ''2h 5m''"
proof -
  let ?none = "Some (Some no_fields)"
  let ?done = "Some (Some (no_fields
        \<lparr>punch_in := JStr ''1970-01-01T00:00:00.000Z'',
         punch_out := JStr ''1970-01-01T02:00:00.000Z''\<rparr>))"
  let ?open = "Some (Some (no_fields\<lparr>punch_in := JStr ''1970-01-01T00:00:00.000Z''\<rparr>))"
  have a: "absent (opt_field punch_in (attendance_of ?none))"
    by (simp add: opt_field_def attendance_of_def no_fields_def absent_def)
  have b: "is_timestamp (opt_field punch_in (attendance_of ?done))"
    "is_timestamp (opt_field punch_out (attendance_of ?done))"
    by (simp_all add: opt_field_def attendance_of_def no_fields_def)
  have c: "truthy (isPunchedIn (attendance_of ?open))"
    by (simp add: isPunchedIn_def js_and_def js_not_def opt_field_def attendance_of_def
        no_fields_def)
  have v: "calculateElapsedTime sample_runtime ?open 7500000 = ''2h 5m''"
    by (simp add: calculateElapsedTime_def opt_field_def attendance_of_def no_fields_def
        sample_runtime_def js_rem_def show_int_def show_nat.simps digit_def)
  from elapsed_zero_or_hidden [of ?none sample_runtime 7500000]
    elapsed_zero_or_hidden [of ?done sample_runtime 7500000]
    elapsed_zero_or_hidden [of ?open sample_runtime 7500000] a b c v
  show ?thesis by simp
qed

section \<open>The counters of the monthly report\<close>

lemma length_filter_count_where: "length (filter P xs) = count_where P xs"
  by (induction xs) (simp_all add: count_where_def)

lemma count_where_cong:
  assumes "\<forall>x \<in> set xs. P x = Q x"
  shows "count_where P xs = count_where Q xs"
  using assms by (induction xs) (simp_all add: count_where_def)

lemma count_where_mset:
  assumes "mset ys = mset xs"
  shows "count_where P ys = count_where P xs"
proof -
  have "count_where P zs = size (filter_mset P (mset zs))" for zs
    by (simp add: length_filter_count_where [symmetric] flip: mset_filter)
  with assms show ?thesis by simp
qed

lemma truthy_flag: "is_flag v \<Longrightarrow> truthy v = (v = JBool True)"
  by (cases v) simp_all

lemma falsy_flag: "is_flag v \<Longrightarrow> (\<not> truthy v) = (v = JBool False)"
  by (cases v) simp_all

lemma truthy_timestamp: "timestamp_or_absent v \<Longrightarrow> truthy v = present v"
  by (cases v) (auto simp: timestamp_or_absent_def absent_def present_def)

lemma truthy_isIncomplete:
  assumes "is_flag (is_complete r)" and "is_flag (is_weekend r)"
    and "timestamp_or_absent (punch_in r)"
  shows "truthy (isIncomplete r) =
    (is_complete r = JBool False \<and> is_weekend r = JBool False \<and> present (punch_in r))"
  using assms falsy_flag [of "is_complete r"] falsy_flag [of "is_weekend r"]
    truthy_timestamp [of "punch_in r"]
  by (auto simp: isIncomplete_def js_and_def js_not_def)


lemma getStats_sel:
  "totalRecords (getStats xs) = length xs"
  "completeShifts (getStats xs) = count_where (\<lambda>r. truthy (is_complete r)) xs"
  "incompleteShifts (getStats xs) = count_where (\<lambda>r. truthy (isIncomplete r)) xs"
  "breakExceeded (getStats xs) = count_where (\<lambda>r. status r = JStr ''break_exceeded'') xs"
  by (simp_all add: getStats_def length_filter_count_where)

lemma complete_typed:
  assumes "\<forall>r \<in> set xs. is_flag (is_complete r)"
  shows "count_where (\<lambda>r. truthy (is_complete r)) xs
      = count_where (\<lambda>r. is_complete r = JBool True) xs"
proof (rule count_where_cong, rule ballI)
  fix r assume "r \<in> set xs"
  with assms have "is_flag (is_complete r)" by blast
  then show "truthy (is_complete r) = (is_complete r = JBool True)" by (rule truthy_flag)
qed

lemma incomplete_typed:
  assumes "\<forall>r \<in> set xs. is_flag (is_complete r) \<and> is_flag (is_weekend r)
             \<and> timestamp_or_absent (punch_in r)"
  shows "count_where (\<lambda>r. truthy (isIncomplete r)) xs
      = count_where (\<lambda>r. is_complete r = JBool False \<and> is_weekend r = JBool False
                              \<and> present (punch_in r)) xs"
proof (rule count_where_cong, rule ballI)
  fix r assume "r \<in> set xs"
  with assms have "is_flag (is_complete r)" "is_flag (is_weekend r)"
    "timestamp_or_absent (punch_in r)" by blast+
  then show "truthy (isIncomplete r) =
    (is_complete r = JBool False \<and> is_weekend r = JBool False \<and> present (punch_in r))"
    by (rule truthy_isIncomplete)
qed

text \<open>
  C3. For a list of records of the monthly report (is_complete and is_weekend booleans,
  punch_in a timestamp or absent) the four counters are: the length of the list; the
  number of records with is_complete true; the number of records with is_complete false,
  is_weekend false and punch_in present; the number of records whose status is
  \<open>break_exceeded\<close>. The complete counter is the same for every permutation of the list.
\<close>

theorem getStats_counters:
  assumes "\<forall>r \<in> set xs. is_flag (is_complete r) \<and> is_flag (is_weekend r)
             \<and> timestamp_or_absent (punch_in r)"
  shows "totalRecords (getStats xs) = length xs
       \<and> completeShifts (getStats xs) = count_where (\<lambda>r. is_complete r = JBool True) xs
       \<and> incompleteShifts (getStats xs) =
           count_where (\<lambda>r. is_complete r = JBool False \<and> is_weekend r = JBool False
                              \<and> present (punch_in r)) xs
       \<and> breakExceeded (getStats xs) = count_where (\<lambda>r. status r = JStr ''break_exceeded'') xs
       \<and> (\<forall>ys. mset ys = mset xs \<longrightarrow>
            completeShifts (getStats ys) = count_where (\<lambda>r. is_complete r = JBool True) xs)"
proof -
  from assms have flags: "\<forall>r \<in> set xs. is_flag (is_complete r)" by blast
  have c: "completeShifts (getStats xs) = count_where (\<lambda>r. is_complete r = JBool True) xs"
    by (simp only: getStats_sel complete_typed [OF flags])
  have i: "incompleteShifts (getStats xs) =
           count_where (\<lambda>r. is_complete r = JBool False \<and> is_weekend r = JBool False
                              \<and> present (punch_in r)) xs"
    by (simp only: getStats_sel incomplete_typed [OF assms])
  have p: "completeShifts (getStats ys) = count_where (\<lambda>r. is_complete r = JBool True) xs"
    if "mset ys = mset xs" for ys
  proof -
    have "completeShifts (getStats ys) = count_where (\<lambda>r. truthy (is_complete r)) ys"
      by (rule getStats_sel)
    also have "\<dots> = count_where (\<lambda>r. truthy (is_complete r)) xs"
      using that by (rule count_where_mset)
    also have "\<dots> = count_where (\<lambda>r. is_complete r = JBool True) xs"
      by (rule complete_typed [OF flags])
    finally show ?thesis .
  qed
  from c i p getStats_sel(1) [of xs] getStats_sel(4) [of xs] show ?thesis by blast
qed


theorem getStats_counters_witness:
  "getStats [complete_shift, exceeded_shift, weekend_day]
     = \<lparr>totalRecords = 3, completeShifts = 1, incompleteShifts = 1, breakExceeded = 1\<rparr>
   \<and> completeShifts (getStats [weekend_day, exceeded_shift, complete_shift]) = 1"
proof -
  have h: "\<forall>r \<in> set [complete_shift, exceeded_shift, weekend_day].
             is_flag (is_complete r) \<and> is_flag (is_weekend r) \<and> timestamp_or_absent (punch_in r)"
    by (simp add: complete_shift_def exceeded_shift_def weekend_day_def no_fields_def
        timestamp_or_absent_def absent_def)
  have m: "mset [weekend_day, exceeded_shift, complete_shift]
         = mset [complete_shift, exceeded_shift, weekend_day]"
    by (simp add: add.commute)
  have v: "count_where (\<lambda>r. is_complete r = JBool True) [complete_shift, exceeded_shift, weekend_day] = 1"
    "count_where (\<lambda>r. is_complete r = JBool False \<and> is_weekend r = JBool False
                              \<and> present (punch_in r)) [complete_shift, exceeded_shift, weekend_day] = 1"
    "count_where (\<lambda>r. status r = JStr ''break_exceeded'') [complete_shift, exceeded_shift, weekend_day] = 1"
    by (simp_all add: count_where_def complete_shift_def exceeded_shift_def weekend_day_def
        no_fields_def present_def absent_def)
  from getStats_counters [OF h] m v show ?thesis
    by (cases "getStats [complete_shift, exceeded_shift, weekend_day]") simp
qed

section \<open>The hours cells\<close>

lemma hours_cell_num: "hours_cell rt (JNum n) = (if n = 0 then ''-'' else num_to_string rt n @ ''h'')"
  by (simp add: hours_cell_def)

lemma render_summary_hours:
  assumes "render_summary rt a = Inr v"
  shows "total_hours_text v = hours_cell rt (total_hours a)"
    and "break_duration_text v = hours_cell rt (break_duration a)"
  using assms by (auto simp: render_summary_def split: sum.splits)

lemma render_history_row_hours:
  assumes "render_history_row rt a = Inr v"
  shows "h_hours v = hours_cell rt (total_hours a)"
    and "h_break v = hours_cell rt (break_duration a)"
  using assms by (auto simp: render_history_row_def split: sum.splits)

lemma render_report_row_hours:
  assumes "render_report_row rt a = Inr v"
  shows "m_hours v = hours_cell rt (total_hours a)"
    and "m_break v = hours_cell rt (break_duration a)"
  using assms by (auto simp: render_report_row_def split: sum.splits)

text \<open>
  C10. A total_hours or break_duration that is present but 0 is rendered as the
  placeholder \<open>-\<close>, as an absent one is; a number is displayed (followed by \<open>h\<close>) if
  and only if it is not 0. This is so in today's summary, in a history row and in a row
  of the monthly report.
\<close>

theorem zero_hours_placeholder:
  "hours_cell rt (JNum 0) = ''-'' \<and> hours_cell rt JUndefined = ''-'' \<and> hours_cell rt JNull = ''-''
   \<and> (hours_cell rt (JNum n) = num_to_string rt n @ ''h'' \<longleftrightarrow> n \<noteq> 0)
   \<and> (hours_cell rt (JNum n) = ''-'' \<longleftrightarrow> n = 0)
   \<and> (\<forall>v. render_summary rt a = Inr v \<longrightarrow>
         total_hours_text v = hours_cell rt (total_hours a)
         \<and> break_duration_text v = hours_cell rt (break_duration a))
   \<and> (\<forall>v. render_history_row rt a = Inr v \<longrightarrow>
         h_hours v = hours_cell rt (total_hours a) \<and> h_break v = hours_cell rt (break_duration a))
   \<and> (\<forall>v. render_report_row rt a = Inr v \<longrightarrow>
         m_hours v = hours_cell rt (total_hours a) \<and> m_break v = hours_cell rt (break_duration a))"
proof -
  have "xs @ ''h'' \<noteq> ''-''" for xs :: string
    by (cases xs) simp_all
  then have "(hours_cell rt (JNum n) = num_to_string rt n @ ''h'' \<longleftrightarrow> n \<noteq> 0)
     \<and> (hours_cell rt (JNum n) = ''-'' \<longleftrightarrow> n = 0)"
    by (auto simp: hours_cell_num)
  moreover have "hours_cell rt (JNum 0) = ''-'' \<and> hours_cell rt JUndefined = ''-''
      \<and> hours_cell rt JNull = ''-''"
    by (simp add: hours_cell_def)
  ultimately show ?thesis
    using render_summary_hours [of rt a] render_history_row_hours [of rt a]
      render_report_row_hours [of rt a]
    by blast
qed

theorem zero_hours_placeholder_witness:
  "map_sum id total_hours_text (render_summary sample_runtime complete_shift) = Inr ''2h''
   \<and> map_sum id break_duration_text (render_summary sample_runtime complete_shift) = Inr ''-''
   \<and> map_sum id h_hours (render_history_row sample_runtime complete_shift) = Inr ''2h''
   \<and> map_sum id h_break (render_history_row sample_runtime complete_shift) = Inr ''-''
   \<and> map_sum id m_hours (render_report_row sample_runtime complete_shift) = Inr ''2h''
   \<and> map_sum id m_break (render_report_row sample_runtime complete_shift) = Inr ''-''"
proof -
  have t: "time_cell sample_runtime (punch_in complete_shift) = Inr ''12:00 AM''"
    "time_cell sample_runtime (punch_out complete_shift) = Inr ''02:00 AM''"
    "day_cell sample_runtime (date complete_shift) = Inr ''Jan 1, 1970''"
    "status_replace (status complete_shift) = Inr ''complete''"
    by (simp_all add: time_cell_def day_cell_def status_replace_def sample_runtime_def
        complete_shift_def no_fields_def)
  have h: "hours_cell sample_runtime (total_hours complete_shift) = ''2h''"
    "hours_cell sample_runtime (break_duration complete_shift) = ''-''"
    by (simp_all add: hours_cell_def sample_runtime_def complete_shift_def no_fields_def
        show_int_def show_nat.simps digit_def)
  obtain v1 where v1: "render_summary sample_runtime complete_shift = Inr v1"
    by (simp add: render_summary_def t)
  obtain v2 where v2: "render_history_row sample_runtime complete_shift = Inr v2"
    by (simp add: render_history_row_def t)
  obtain v3 where v3: "render_report_row sample_runtime complete_shift = Inr v3"
    by (simp add: render_report_row_def t)
  from zero_hours_placeholder [of sample_runtime 0 complete_shift] v1 v2 v3 h
  show ?thesis by simp
qed

section \<open>The status badges\<close>

text \<open>The four known values have their fixed styles, and a string that is neither one
  of them nor the name of a member of \<^verbatim>\<open>Object.prototype\<close> falls back to the style of
  \<open>active\<close>.\<close>

lemma getStatusBadge_employee_known:
  "getStatusBadge_employee rt (JStr ''complete'') = Own ''bg-emerald-50 text-emerald-700 border-emerald-200''"
  "getStatusBadge_employee rt (JStr ''incomplete'') = Own ''bg-amber-50 text-amber-700 border-amber-200''"
  "getStatusBadge_employee rt (JStr ''break_exceeded'') = Own ''bg-red-50 text-red-700 border-red-200''"
  "getStatusBadge_employee rt (JStr ''active'') = Own ''bg-blue-50 text-blue-700 border-blue-200''"
  by (simp_all add: getStatusBadge_employee_def obj_get_def badges_employee_def)

lemma getStatusBadge_employee_fallback:
  assumes "s \<notin> {''complete'', ''incomplete'', ''break_exceeded'', ''active''}"
    and "s \<notin> set object_prototype_keys"
  shows "getStatusBadge_employee rt (JStr s) = Own ''bg-blue-50 text-blue-700 border-blue-200''"
  using assms by (simp add: getStatusBadge_employee_def obj_get_def badges_employee_def)

lemma getStatusBadge_employer_known:
  "getStatusBadge_employer rt (JStr ''complete'') =
     Own \<lparr>badge_class = ''bg-emerald-50 text-emerald-700 border-emerald-200'', badge_label = ''Complete''\<rparr>"
  "getStatusBadge_employer rt (JStr ''incomplete'') =
     Own \<lparr>badge_class = ''bg-amber-50 text-amber-700 border-amber-200'', badge_label = ''Incomplete''\<rparr>"
  "getStatusBadge_employer rt (JStr ''break_exceeded'') =
     Own \<lparr>badge_class = ''bg-red-50 text-red-700 border-red-200'', badge_label = ''Break Exceeded''\<rparr>"
  "getStatusBadge_employer rt (JStr ''active'') =
     Own \<lparr>badge_class = ''bg-blue-50 text-blue-700 border-blue-200'', badge_label = ''Active''\<rparr>"
  by (simp_all add: getStatusBadge_employer_def obj_get_def badges_employer_def)

lemma getStatusBadge_employer_fallback:
  assumes "s \<notin> {''complete'', ''incomplete'', ''break_exceeded'', ''active''}"
    and "s \<notin> set object_prototype_keys"
  shows "getStatusBadge_employer rt (JStr s) =
     Own \<lparr>badge_class = ''bg-blue-50 text-blue-700 border-blue-200'', badge_label = ''Active''\<rparr>"
  using assms by (simp add: getStatusBadge_employer_def obj_get_def badges_employer_def)

text \<open>
  C4. The claim is that every unrecognised status string gets the style of \<open>active\<close>.
  On the status string \<open>constructor\<close> the lookup \<^verbatim>\<open>badges[status]\<close> finds the member
  that the object literal inherits, which is truthy, so that \<^verbatim>\<open>|| badges.active\<close> is
  not reached: both dashboards return the inherited member, not the style of
  \<open>active\<close>.
\<close>

theorem getStatusBadge_inherited_member:
  "getStatusBadge_employee rt (JStr ''constructor'') = Inherited ''constructor''
   \<and> getStatusBadge_employee rt (JStr ''constructor'')
       \<noteq> getStatusBadge_employee rt (JStr ''active'')
   \<and> getStatusBadge_employer rt (JStr ''constructor'') = Inherited ''constructor''
   \<and> getStatusBadge_employer rt (JStr ''constructor'')
       \<noteq> getStatusBadge_employer rt (JStr ''active'')"
  by (simp add: getStatusBadge_employee_def getStatusBadge_employer_def obj_get_def
      badges_employee_def badges_employer_def object_prototype_keys_def)

section \<open>Rendering records with absent fields\<close>

text \<open>With a status that is a string, today's summary renders a placeholder for each of
  the other four fields when it is absent.\<close>

lemma render_summary_placeholders:
  assumes "status a = JStr s" and "absent (punch_in a)" and "absent (punch_out a)"
    and "absent (total_hours a)" and "absent (break_duration a)"
  shows "\<exists>v. render_summary rt a = Inr v \<and> punch_in_time v = ''-'' \<and> punch_out_time v = ''-''
           \<and> total_hours_text v = ''-'' \<and> break_duration_text v = ''-''"
  using assms
  by (auto simp: render_summary_def time_cell_def hours_cell_def status_replace_def absent_def)

text \<open>Whenever a render succeeds, each of the four guarded fields that is absent shows
  the placeholder.\<close>

lemma hours_cell_absent: "absent v \<Longrightarrow> hours_cell rt v = ''-''"
  by (auto simp: hours_cell_def absent_def)

lemma time_cell_absent: "absent v \<Longrightarrow> time_cell rt v = Inr ''-''"
  by (auto simp: time_cell_def absent_def)

lemma render_summary_absent:
  assumes "render_summary rt a = Inr v"
  shows "absent (punch_in a) \<Longrightarrow> punch_in_time v = ''-''"
    and "absent (punch_out a) \<Longrightarrow> punch_out_time v = ''-''"
    and "absent (total_hours a) \<Longrightarrow> total_hours_text v = ''-''"
    and "absent (break_duration a) \<Longrightarrow> break_duration_text v = ''-''"
  using assms
  by (auto simp: render_summary_def time_cell_absent hours_cell_absent split: sum.splits)

lemma render_report_row_absent:
  assumes "render_report_row rt a = Inr v"
  shows "absent (punch_in a) \<Longrightarrow> m_punch_in v = ''-''"
    and "absent (punch_out a) \<Longrightarrow> m_punch_out v = ''-''"
    and "absent (total_hours a) \<Longrightarrow> m_hours v = ''-''"
    and "absent (break_duration a) \<Longrightarrow> m_break v = ''-''"
  using assms
  by (auto simp: render_report_row_def time_cell_absent hours_cell_absent split: sum.splits)

text \<open>The row of the monthly report does not throw on an absent status.\<close>

lemma render_report_row_status:
  assumes "render_report_row rt a = Inr v" and "absent (status a)" and "\<not> truthy (is_weekend a)"
  shows "m_status v = Badge (Some ''bg-blue-50 text-blue-700 border-blue-200'') (Some ''Active'')"
  using assms
  by (auto simp: render_report_row_def absent_def getStatusBadge_employer_def obj_get_def
      badges_employer_def object_prototype_keys_def split: sum.splits)

text \<open>
  C8. The claim is that a record renders without throwing whichever of punch_in,
  punch_out, total_hours, break_duration and status are absent. With status absent,
  \<^verbatim>\<open>attendance.status.replace('_', ' ')\<close> throws a TypeError in today's summary and in
  a history row; the row of the monthly report renders, with the badge of \<open>active\<close>.
\<close>

theorem render_throws_without_status:
  "render_summary sample_runtime (no_fields\<lparr>punch_in := JStr ''1970-01-01T00:00:00.000Z''\<rparr>)
     = Inl TypeError
   \<and> render_today sample_runtime
       (Some (Some (no_fields\<lparr>punch_in := JStr ''1970-01-01T00:00:00.000Z''\<rparr>)))
     = Inl TypeError
   \<and> render_history_row sample_runtime
       (no_fields\<lparr>date := JStr ''1970-01-01'', punch_in := JStr ''1970-01-01T00:00:00.000Z''\<rparr>)
     = Inl TypeError
   \<and> map_sum id m_status (render_report_row sample_runtime
       (no_fields\<lparr>date := JStr ''1970-01-01'', punch_in := JStr ''1970-01-01T00:00:00.000Z''\<rparr>))
     = Inr (Badge (Some ''bg-blue-50 text-blue-700 border-blue-200'') (Some ''Active''))"
  by (simp add: render_summary_def render_today_def render_history_row_def render_report_row_def
      attendance_of_def time_cell_def day_cell_def status_replace_def sample_runtime_def
      no_fields_def getStatusBadge_employer_def obj_get_def badges_employer_def
      object_prototype_keys_def)

section \<open>Failed requests\<close>

text \<open>
  C6, as the claim states it, fails: when the request for today's status is rejected
  with a message of the server, the notification is the fixed text and does not contain
  the message.
\<close>

theorem fetch_failure_hides_server_message:
  "is_message (detail_of (ErrorResponse (Some (JStr ''Attendance service is down''))))
   \<and> snd (fetchTodayStatus (Rejected (ErrorResponse (Some (JStr ''Attendance service is down''))))
           (view (initial 0)))
       = [Settle GetTodayStatus False,
          Notify (ToastError (JStr (''Failed to fetch today'' @ [CHR 0x27] @ ''s status'')))]
   \<and> Notify (ToastError (JStr ''Attendance service is down''))
       \<notin> set (snd (fetchTodayStatus
           (Rejected (ErrorResponse (Some (JStr ''Attendance service is down''))))
           (view (initial 0))))"
  by (simp add: fetchTodayStatus_def)

lemma js_or_message: "is_message v \<Longrightarrow> js_or v w = v"
  by (cases v) (simp_all add: js_or_def)

lemma js_or_absent: "absent v \<Longrightarrow> js_or v w = w"
  by (auto simp: js_or_def absent_def)

lemma handler_post_rejected:
  "handler_post rt c (Rejected f) d =
     ((d\<lparr>actionLoading := False\<rparr>,
       [Settle (PostCommand c) False,
        Notify (ToastError (js_or (detail_of f) (JStr (failure_text c)))),
        SetActionLoading False]), [])"
  by (simp add: handler_post_def handler_catch_def)

text \<open>
  C6, amended. When a command (punch-in, punch-out, start-break, end-break) or a login or
  registration fails, the notification is the server's message when there is one, and a
  fixed fallback text when there is none. When one of the three read requests (today's
  status, history, monthly report) fails, the notification is a fixed text whatever the
  server sent. After a failure no request is issued, nothing more is awaited, and every
  handler returns a state: the failure is caught.
\<close>

theorem failure_notifications:
  "(is_message (detail_of f) \<longrightarrow>
      snd (fst (handler_post rt c (Rejected f) d)) =
        [Settle (PostCommand c) False, Notify (ToastError (detail_of f)), SetActionLoading False]
      \<and> fst (handleSubmit isLogin (Rejected f)) =
        [Settle (PostAuth isLogin) False, Notify (ToastError (detail_of f))])
   \<and> (absent (detail_of f) \<longrightarrow>
      snd (fst (handler_post rt c (Rejected f) d)) =
        [Settle (PostCommand c) False, Notify (ToastError (JStr (failure_text c))),
         SetActionLoading False]
      \<and> fst (handleSubmit isLogin (Rejected f)) =
        [Settle (PostAuth isLogin) False, Notify (ToastError (JStr ''Authentication failed''))])
   \<and> fetchTodayStatus (Rejected f) d =
        (d, [Settle GetTodayStatus False,
             Notify (ToastError (JStr (''Failed to fetch today'' @ [CHR 0x27] @ ''s status'')))])
   \<and> fetchHistory (Rejected f) d =
        (d, [Settle GetMyHistory False, Notify (ToastError (JStr ''Failed to fetch history''))])
   \<and> fetchMonthlyReport (Rejected f) e =
        (e\<lparr>report_loading := False\<rparr>,
         [Settle PostMonthlyReport False,
          Notify (ToastError (JStr ''Failed to fetch monthly report''))])
   \<and> filter is_issue (snd (fst (handler_post rt c (Rejected f) d))) = []
   \<and> snd (handler_post rt c (Rejected f) d) = []
   \<and> filter is_issue (fst (handleSubmit isLogin (Rejected f))) = []
   \<and> snd (handleSubmit isLogin (Rejected f)) = None"
  by (simp add: handler_post_rejected handleSubmit_def fetchTodayStatus_def fetchHistory_def
      fetchMonthlyReport_def js_or_message js_or_absent)

theorem failure_notifications_witness:
  "is_message (detail_of (ErrorResponse (Some (JStr ''Already punched in today''))))
   \<and> snd (fst (handler_post sample_runtime PunchIn
        (Rejected (ErrorResponse (Some (JStr ''Already punched in today'')))) (view (initial 0))))
      = [Settle (PostCommand PunchIn) False,
         Notify (ToastError (JStr ''Already punched in today'')), SetActionLoading False]
   \<and> absent (detail_of NoResponse)
   \<and> snd (fst (handler_post sample_runtime PunchOut (Rejected NoResponse) (view (initial 0))))
      = [Settle (PostCommand PunchOut) False,
         Notify (ToastError (JStr ''Failed to punch out'')), SetActionLoading False]
   \<and> fst (handleSubmit True (Rejected (ErrorResponse (Some (JStr ''Already punched in today'')))))
      = [Settle (PostAuth True) False, Notify (ToastError (JStr ''Already punched in today''))]"
  using failure_notifications [of "ErrorResponse (Some (JStr ''Already punched in today''))"
      sample_runtime PunchIn "view (initial 0)" True]
    failure_notifications [of NoResponse sample_runtime PunchOut "view (initial 0)" True]
  by (simp add: absent_def)

section \<open>The persisted session\<close>

lemma reload_present:
  assumes "st ''token'' = Some t" and "t \<noteq> []" and "st ''user'' = Some s" and "s \<noteq> []"
    and "parse js s = Some u"
  shows "reload js st = Inr (\<lparr>app_user = Some u, app_loading = False\<rparr>, [])"
  using assms
  by (simp add: reload_def App_mount_def getItem_def js_and_def app_initial_def Let_def)

lemma reload_absent:
  assumes "st ''token'' = None \<or> st ''user'' = None"
  shows "reload js st = Inr (\<lparr>app_user = None, app_loading = False\<rparr>, [])"
  using assms
  by (auto simp: reload_def App_mount_def getItem_def js_and_def app_initial_def Let_def
      split: option.splits)

text \<open>
  C7. A successful login hands the token and the user to \<^verbatim>\<open>handleLogin\<close>, which stores
  the token and the serialized user in the local storage. On startup, when both stored
  values are there (non-empty, the user parseable), the user is restored and the
  dashboard of the user is shown, with no request issued and whatever the token is; when
  either is missing, the user is unauthenticated. Login followed by a reload yields the
  same user, for a non-empty token and a user that \<^verbatim>\<open>JSON.parse\<close> reads back.
\<close>

theorem login_reload_roundtrip:
  assumes "tok \<noteq> []" and "stringify js u \<noteq> []" and "parse js (stringify js u) = Some u"
  shows "snd (handleSubmit isLogin (Resolved (Some \<lparr>token = tok, user_data = u\<rparr>)))
           = Some \<lparr>token = tok, user_data = u\<rparr>
       \<and> fst (handleLogin js tok u (st, a)) ''token'' = Some tok
       \<and> fst (handleLogin js tok u (st, a)) ''user'' = Some (stringify js u)
       \<and> app_user (snd (handleLogin js tok u (st, a))) = Some u
       \<and> reload js (fst (handleLogin js tok u (st, a)))
           = Inr (\<lparr>app_user = Some u, app_loading = False\<rparr>, [])
       \<and> (\<forall>st' t s u'. st' ''token'' = Some t \<and> t \<noteq> [] \<and> st' ''user'' = Some s \<and> s \<noteq> []
              \<and> parse js s = Some u' \<longrightarrow>
            reload js st' = Inr (\<lparr>app_user = Some u', app_loading = False\<rparr>, [])
            \<and> App_view \<lparr>app_user = Some u', app_loading = False\<rparr>
                = (if role u' = ''employee'' then EmployeeScreen u' else EmployerScreen u'))
       \<and> (\<forall>st'. st' ''token'' = None \<or> st' ''user'' = None \<longrightarrow>
            reload js st' = Inr (\<lparr>app_user = None, app_loading = False\<rparr>, [])
            \<and> App_view \<lparr>app_user = None, app_loading = False\<rparr> = AuthScreen)"
proof -
  have stored: "fst (handleLogin js tok u (st, a)) ''token'' = Some tok
       \<and> fst (handleLogin js tok u (st, a)) ''user'' = Some (stringify js u)
       \<and> app_user (snd (handleLogin js tok u (st, a))) = Some u"
    by (simp add: handleLogin_def)
  from stored assms
  have "reload js (fst (handleLogin js tok u (st, a)))
           = Inr (\<lparr>app_user = Some u, app_loading = False\<rparr>, [])"
    by (intro reload_present [where t = tok and s = "stringify js u"]) simp_all
  moreover have "snd (handleSubmit isLogin (Resolved (Some \<lparr>token = tok, user_data = u\<rparr>)))
           = Some \<lparr>token = tok, user_data = u\<rparr>"
    by (simp add: handleSubmit_def)
  ultimately show ?thesis
    using stored by (auto simp: reload_present reload_absent App_view_def)
qed

theorem login_reload_roundtrip_witness:
  "''tok-123'' \<noteq> [] \<and> stringify sample_json sample_user \<noteq> []
   \<and> parse sample_json (stringify sample_json sample_user) = Some sample_user
   \<and> reload sample_json (fst (handleLogin sample_json ''tok-123'' sample_user (Map.empty, app_initial)))
       = Inr (\<lparr>app_user = Some sample_user, app_loading = False\<rparr>, [])
   \<and> reload sample_json Map.empty = Inr (\<lparr>app_user = None, app_loading = False\<rparr>, [])"
proof -
  have h: "''tok-123'' \<noteq> []" "stringify sample_json sample_user \<noteq> []"
    "parse sample_json (stringify sample_json sample_user) = Some sample_user"
    by (simp_all add: sample_json_def sample_user_def quoted_def)
  from login_reload_roundtrip [OF h, where st = Map.empty and a = app_initial] h show ?thesis
    by simp
qed

section \<open>The action-in-flight flag\<close>

lemma replay_append:
  "replay p (es @ es') = (case replay p es of None \<Rightarrow> None | Some p' \<Rightarrow> replay p' es')"
  by (induction es arbitrary: p) (simp_all split: option.splits)

lemma fetch_settle_neutral:
  assumes "fetch_settle got d = (d', es)"
  shows "actionLoading d' = actionLoading d" and "replay p es = Some p"
  using assms
  by (cases got; auto simp: fetchTodayStatus_def fetchHistory_def split: outcome.splits)+

lemma fetch_of_get: "fetch_of got \<in> {GetTodayStatus, GetMyHistory}"
  by (cases got) simp_all

lemma replay_issue_refetches: "replay p (map Issue (refetches c)) = Some p"
  by (cases c) simp_all

lemma refetches_ok: "refetches c \<noteq> [] \<and> set (refetches c) \<subseteq> {GetTodayStatus, GetMyHistory}"
  by (cases c) simp_all

lemma handler_begin_flag:
  assumes "handler_begin c d = (d', es)"
  shows "actionLoading d'" and "replay Clear es = Some InFlight"
  using assms by (auto simp: handler_begin_def)

lemma handler_post_flag:
  assumes "handler_post rt c out d = ((d', es), nxt)"
  shows "nxt = [] \<Longrightarrow> \<not> actionLoading d' \<and> replay InFlight es = Some Clear"
    and "nxt \<noteq> [] \<Longrightarrow> actionLoading d' = actionLoading d \<and> replay InFlight es = Some Settled
           \<and> nxt = refetches c"
  using assms refetches_ok [of c]
  by (auto simp: handler_post_def handler_catch_def replay_append replay_issue_refetches
      split: outcome.splits option.splits)

lemma handler_finally_flag:
  assumes "handler_finally d = (d', es)"
  shows "\<not> actionLoading d'" and "replay Settled es = Some Clear"
  using assms by (auto simp: handler_finally_def)

lemma inv_initial: "inv (initial now)"
  by (simp add: inv_def initial_def phase_of_def)


text \<open>Every step of the event loop keeps the invariant.\<close>

lemma single_handler:
  assumes "length hs \<le> 1" and "h \<in> set hs"
  shows "hs = [h]"
  using assms by (cases hs) auto

lemma inv_step:
  assumes "inv m" and "step rt m m'"
  shows "inv m'"
  using assms(2)
proof cases
  case (tick now)
  with assms(1) show ?thesis
    by (simp add: inv_def phase_of_def)
next
  case (loaded got d es rest)
  from fetch_settle_neutral [OF loaded(3)] assms(1) loaded(1) show ?thesis
    by (simp add: inv_def phase_of_def replay_append)
next
  case (click c d es)
  from click(2) assms(1) have idle: "running m = []"
    by (simp add: can_click_def button_disabled_def inv_def)
  with assms(1) have "replay Clear (log m) = Some Clear"
    by (simp add: inv_def phase_of_def)
  with handler_begin_flag [OF click(3)] idle click(1) show ?thesis
    by (simp add: inv_def phase_of_def replay_append handler_ok_def)
next
  case (posted c out d es nxt)
  from assms(1) posted(2) have one: "running m = [(c, [PostCommand c])]"
    by (intro single_handler) (simp_all add: inv_def)
  with assms(1) have ph: "replay Clear (log m) = Some InFlight" and fl: "actionLoading (view m)"
    by (simp_all add: inv_def phase_of_def)
  show ?thesis
  proof (cases "nxt = []")
    case True
    with handler_post_flag(1) [OF posted(3)] one ph posted(1) show ?thesis
      by (simp add: inv_def phase_of_def replay_append)
  next
    case False
    with handler_post_flag(2) [OF posted(3)] refetches_ok [of c] one ph fl posted(1) show ?thesis
      by (auto simp: inv_def phase_of_def replay_append handler_ok_def)
  qed
next
  case (refetched c awaited got d es rest)
  from assms(1) refetched(2) have one: "running m = [(c, awaited)]"
    by (intro single_handler) (simp_all add: inv_def)
  from refetched(3) fetch_of_get [of got] have np: "awaited \<noteq> [PostCommand c]"
    by auto
  from assms(1) one have ok: "handler_ok (c, awaited)"
    by (simp add: inv_def)
  with np have sub: "set awaited \<subseteq> {GetTodayStatus, GetMyHistory}"
    by (simp add: handler_ok_def)
  have "set rest \<subseteq> set awaited"
    unfolding refetched(5) by (rule set_remove1_subset)
  with sub have sub': "set rest \<subseteq> {GetTodayStatus, GetMyHistory}" by blast
  then have np': "rest \<noteq> [PostCommand c]" by auto
  from assms(1) one np have ph: "replay Clear (log m) = Some Settled" and fl: "actionLoading (view m)"
    by (simp_all add: inv_def phase_of_def)
  from fetch_settle_neutral [OF refetched(4)] one ph fl np' sub' refetched(1,6) show ?thesis
    by (simp add: inv_def phase_of_def replay_append handler_ok_def)
next
  case (finished c awaited got d es d' es')
  from assms(1) finished(2) have one: "running m = [(c, awaited)]"
    by (intro single_handler) (simp_all add: inv_def)
  from finished(3) fetch_of_get [of got] have np: "awaited \<noteq> [PostCommand c]"
    by auto
  from assms(1) one np have ph: "replay Clear (log m) = Some Settled"
    by (simp add: inv_def phase_of_def)
  from fetch_settle_neutral(2) [OF finished(4)] handler_finally_flag [OF finished(6)] one ph
    finished(1) show ?thesis
    by (simp add: inv_def phase_of_def replay_append)
qed

lemma reachable_inv:
  assumes "reachable rt now m"
  shows "inv m"
  using assms by (induction rule: reachable.induct) (auto intro: inv_initial inv_step)


text \<open>
  C5. In every state the dashboard can reach: at most one command is under way; the
  flag is set exactly while one is; while one is, each of the four buttons is disabled
  and none can be clicked; and the log obeys the discipline of the flag, that is, the
  flag is set right before a command is issued and cleared only after the command has
  settled. A rejected command clears the flag and ends the handler, as the end of the
  refetches does after a success.
\<close>

theorem action_flag_guards_commands:
  assumes "reachable rt now m"
  shows "length (running m) \<le> 1
       \<and> (actionLoading (view m) \<longleftrightarrow> running m \<noteq> [])
       \<and> (running m \<noteq> [] \<longrightarrow> (\<forall>c. button_disabled (view m) c \<and> \<not> can_click (view m) c))
       \<and> flag_discipline (log m)
       \<and> (\<forall>c f d. fst (fst (handler_post rt c (Rejected f) d)) = d\<lparr>actionLoading := False\<rparr>
                   \<and> snd (handler_post rt c (Rejected f) d) = [])
       \<and> (\<forall>d. fst (handler_finally d) = d\<lparr>actionLoading := False\<rparr>)"
proof -
  from assms have "inv m" by (rule reachable_inv)
  then have "length (running m) \<le> 1" and "actionLoading (view m) \<longleftrightarrow> running m \<noteq> []"
    and "flag_discipline (log m)"
    by (simp_all add: inv_def flag_discipline_def)
  moreover have "\<forall>c f d. fst (fst (handler_post rt c (Rejected f) d)) = d\<lparr>actionLoading := False\<rparr>
                   \<and> snd (handler_post rt c (Rejected f) d) = []"
    by (simp add: handler_post_def handler_catch_def)
  moreover have "\<forall>d. fst (handler_finally d) = d\<lparr>actionLoading := False\<rparr>"
    by (simp add: handler_finally_def)
  ultimately show ?thesis
    by (simp add: can_click_def button_disabled_def)
qed

text \<open>The state \<open>punching_in\<close> is reached by the two responses of the initial load and a
  click on Punch In.\<close>

lemma step_loadedI:
  assumes "fetch_of got \<in> set (boot m)" and "fetch_settle got (view m) = (d, es)"
    and "m' = m\<lparr>view := (if remove1 (fetch_of got) (boot m) = [] then d\<lparr>loading := False\<rparr> else d),
                  boot := remove1 (fetch_of got) (boot m),
                  log := log m @ es\<rparr>"
  shows "step rt m m'"
  unfolding assms(3) using assms(1,2) by (rule step.loaded) simp

lemma step_clickI:
  assumes "can_click (view m) c" and "handler_begin c (view m) = (d, es)"
    and "m' = m\<lparr>view := d, running := running m @ [(c, [PostCommand c])], log := log m @ es\<rparr>"
  shows "step rt m m'"
  unfolding assms(3) using assms(1,2) by (rule step.click)

lemma reachable_punching_in: "reachable sample_runtime 0 punching_in"
proof -
  let ?d0 = "\<lparr>todayStatus = Some None, history = [], loading = True,
               actionLoading = False, currentTime = 0\<rparr>"
  let ?m1 = "\<lparr>view = ?d0,
               boot = [GetMyHistory],
               running = [],
               log = [Issue GetTodayStatus, Issue GetMyHistory, Settle GetTodayStatus True]\<rparr>"
  let ?m2 = "\<lparr>view = ?d0\<lparr>loading := False\<rparr>,
               boot = [],
               running = [],
               log = [Issue GetTodayStatus, Issue GetMyHistory, Settle GetTodayStatus True,
                      Settle GetMyHistory True]\<rparr>"
  have "step sample_runtime (initial 0) ?m1"
    by (rule step_loadedI [where got = "TodayStatus (Resolved (Some None))" and d = ?d0
          and es = "[Settle GetTodayStatus True]"])
       (simp_all add: initial_def fetchTodayStatus_def)
  then have r1: "reachable sample_runtime 0 ?m1"
    by (rule reachable.after [OF reachable.start])
  have "step sample_runtime ?m1 ?m2"
    by (rule step_loadedI [where got = "History (Resolved [])" and d = ?d0
          and es = "[Settle GetMyHistory True]"])
       (simp_all add: fetchHistory_def)
  with r1 have r2: "reachable sample_runtime 0 ?m2"
    by (rule reachable.after)
  have "step sample_runtime ?m2 punching_in"
    by (rule step_clickI [where c = PunchIn and d = "?d0\<lparr>loading := False, actionLoading := True\<rparr>"
          and es = "[SetActionLoading True, Issue (PostCommand PunchIn)]"])
       (simp_all add: punching_in_def can_click_def button_disabled_def handler_begin_def
          isPunchedIn_def js_and_def js_not_def opt_field_def attendance_of_def)
  with r2 show ?thesis
    by (rule reachable.after)
qed

theorem action_flag_guards_commands_witness:
  "reachable sample_runtime 0 punching_in
   \<and> running punching_in = [(PunchIn, [PostCommand PunchIn])]
   \<and> actionLoading (view punching_in)
   \<and> button_disabled (view punching_in) PunchIn \<and> button_disabled (view punching_in) PunchOut
   \<and> button_disabled (view punching_in) StartBreak \<and> button_disabled (view punching_in) EndBreak
   \<and> \<not> can_click (view punching_in) PunchIn
   \<and> flag_discipline (log punching_in)"
  using action_flag_guards_commands [OF reachable_punching_in] reachable_punching_in
  by (simp add: punching_in_def)

end
